theory Spec2Isabelle
  imports Main "HOL-Library.Word"
begin

unbundle bit_operations_syntax

section \<open>Values, instructions and the interpreter thread\<close>

text \<open>
  The tags of \<^verbatim>\<open>Type::Enum\<close>. The enumeration itself is declared in \<^verbatim>\<open>type.h\<close>; the
  constructors below are the tags that the interpreter and the recorder name.
\<close>

datatype Type =
    Type_Nil | Type_Promise | Type_Default | Type_Null | Type_Raw | Type_Logical
  | Type_Integer | Type_Double | Type_Complex | Type_Character | Type_List
  | Type_Function | Type_Environment | Type_Object

text \<open>
  Modelled from the spec: a Logical element is one byte that is true, false or the NA
  sentinel; \<^verbatim>\<open>Logical::isTrue\<close> and \<^verbatim>\<open>Logical::isFalse\<close> are declared in the absent
  \<^verbatim>\<open>value.h\<close>.
\<close>

datatype lgl = Logical_True | Logical_False | Logical_NA

definition Logical_isTrue :: "lgl \<Rightarrow> bool" where
  "Logical_isTrue x = (x = Logical_True)"

definition Logical_isFalse :: "lgl \<Rightarrow> bool" where
  "Logical_isFalse x = (x = Logical_False)"

text \<open>
  Modelled from the spec: the Integer NA is \<^verbatim>\<open>INT64_MIN\<close>; the Double NA is one specific
  NaN bit pattern, which the functions below take as the parameter \<open>dNA\<close>. A double is
  kept as its 64 bits; \<^verbatim>\<open>d != 0\<close> is false exactly for the two zeros (every NaN compares
  unequal to 0).
\<close>

definition Integer_isNA :: "64 word \<Rightarrow> bool" where
  "Integer_isNA x = (x = 0x8000000000000000)"

definition Double_isNA :: "64 word \<Rightarrow> 64 word \<Rightarrow> bool" where
  "Double_isNA dNA x = (x = dNA)"

definition double_nonzero :: "64 word \<Rightarrow> bool" where
  "double_nonzero x = (x AND 0x7FFFFFFFFFFFFFFF \<noteq> 0)"

type_synonym String = int
type_synonym pc = int
type_synonym ptr = nat

text \<open>
  A \<^verbatim>\<open>Value\<close>: the header (type and length) and the payload. The scalar payload is read
  as \<^verbatim>\<open>c\<close> (logical byte), \<^verbatim>\<open>i\<close> (64-bit integer) or \<^verbatim>\<open>d\<close> (double); a Function,
  Promise or Default carries a prototype and an environment, which the wrapper
  \<^verbatim>\<open>Function f(v)\<close> reads back. Pointers are addresses, 0 is the null pointer.
\<close>

record Value =
  v_type :: Type
  v_length :: int
  v_c :: lgl
  v_i :: "64 word"
  v_d :: "64 word"
  v_prototype :: ptr
  v_environment :: ptr

text \<open>
  The tests of \<^verbatim>\<open>value.h\<close> that the handlers use read the header: \<^verbatim>\<open>isLogical1\<close> is
  "a Logical of length 1", and so on.
\<close>

definition isLogical1 :: "Value \<Rightarrow> bool" where
  "isLogical1 v = (v_type v = Type_Logical \<and> v_length v = 1)"

definition isInteger1 :: "Value \<Rightarrow> bool" where
  "isInteger1 v = (v_type v = Type_Integer \<and> v_length v = 1)"

definition isDouble1 :: "Value \<Rightarrow> bool" where
  "isDouble1 v = (v_type v = Type_Double \<and> v_length v = 1)"

definition isPromise :: "Value \<Rightarrow> bool" where
  "isPromise v = (v_type v = Type_Promise)"

definition isDefault :: "Value \<Rightarrow> bool" where
  "isDefault v = (v_type v = Type_Default)"

definition isNil :: "Value \<Rightarrow> bool" where
  "isNil v = (v_type v = Type_Nil)"

text \<open>
  Modelled from the spec: \<^verbatim>\<open>isConcrete\<close> (declared in \<^verbatim>\<open>value.h\<close>) is false exactly for
  a Promise, a Default and Nil, the three kinds of binding that hold no value yet.
\<close>

definition isConcrete :: "Value \<Rightarrow> bool" where
  "isConcrete v = (v_type v \<noteq> Type_Nil \<and> v_type v \<noteq> Type_Promise \<and> v_type v \<noteq> Type_Default)"

text \<open>
  The three operands of an \<^verbatim>\<open>Instruction\<close>. An operand that is not positive is a
  register index, a positive one is an interned name. An instruction pointer is the
  index of the instruction, so \<^verbatim>\<open>&inst + n\<close> is \<open>pc + n\<close>.
\<close>

record Instruction =
  inst_a :: int
  inst_b :: int
  inst_c :: int

text \<open>
  \<^verbatim>\<open>_error(msg)\<close> throws; \<open>Undefined\<close> marks a step that has no behaviour to follow
  (popping an empty frame stack, reading an immediate operand as a pointer), so that
  such a step is a visible branch of the model.
\<close>

datatype error = Error string | Undefined string

record StackFrame =
  f_environment :: ptr
  f_ownEnvironment :: bool
  f_prototype :: ptr
  f_returnpc :: pc
  f_returnbase :: int
  f_i :: int
  f_env :: ptr

text \<open>
  Modelled from the spec: the destination of a frame is one word, "register index or
  name interned id"; \<^verbatim>\<open>frame.s\<close> is that word read as a String.
\<close>

definition f_s :: "StackFrame \<Rightarrow> String" where
  "f_s fr = f_i fr"

record Environment =
  e_bindings :: "String \<Rightarrow> Value"
  e_lexical :: ptr
  e_dynamic :: ptr

text \<open>
  The thread: the register file is memory addressed by integers, \<open>t_base\<close> is the
  moving base pointer, \<open>t_frame\<close> the current frame, \<open>t_stack\<close> the saved frames,
  \<open>t_environments\<close> the free list of environments and \<open>t_heap\<close> the environments by
  address. \<open>t_jitEnabled\<close> is \<^verbatim>\<open>thread.state.jitEnabled\<close>.
\<close>

record Thread =
  t_base :: int
  t_registers :: "int \<Rightarrow> Value"
  t_frame :: StackFrame
  t_stack :: "StackFrame list"
  t_environments :: "ptr list"
  t_heap :: "ptr \<Rightarrow> Environment"
  t_jitEnabled :: bool

text \<open>
  What the interpreter takes from headers that are not among the sources, as
  parameters: the entry instruction of a prototype, the string table, the lexical lookup
  \<^verbatim>\<open>Environment::getRecursive\<close>, \<^verbatim>\<open>Value::isClosureSafe\<close>, the bit pattern of the
  Double NA, the coercion \<^verbatim>\<open>As<Integer>(thread, v)[0]\<close>, the compile-time switch
  \<^verbatim>\<open>ENABLE_JIT\<close> and the tile width \<^verbatim>\<open>TRACE_VECTOR_WIDTH\<close>.
\<close>

record Extern =
  x_entry :: "ptr \<Rightarrow> pc"
  x_externStr :: "String \<Rightarrow> string"
  x_getRecursive :: "(ptr \<Rightarrow> Environment) \<Rightarrow> ptr \<Rightarrow> String \<Rightarrow> Value"
  x_isClosureSafe :: "Value \<Rightarrow> bool"
  x_dNA :: "64 word"
  x_AsInteger0 :: "Value \<Rightarrow> int"
  x_ENABLE_JIT :: bool
  x_TRACE_VECTOR_WIDTH :: int

text \<open>
  Modelled from the spec: \<^verbatim>\<open>Thread::push\<close> saves the current frame on the frame stack
  and \<^verbatim>\<open>Thread::pop\<close> restores the last saved one (both are declared in the absent
  \<^verbatim>\<open>interpreter.h\<close>).
\<close>

definition push :: "Thread \<Rightarrow> Thread" where
  "push t = t\<lparr>t_stack := t_stack t @ [t_frame t]\<rparr>"

definition pop :: "Thread \<Rightarrow> error + Thread" where
  "pop t = (if t_stack t = [] then Inl (Undefined ''pop of an empty frame stack'')
            else Inr (t\<lparr>t_frame := last (t_stack t), t_stack := butlast (t_stack t)\<rparr>))"

text \<open>
  Modelled from the spec: \<^verbatim>\<open>buildStackFrame\<close> (declared in the absent \<^verbatim>\<open>call.h\<close>) pushes
  a frame that records the environment to run in, the ownership flag, the prototype,
  the saved base, the return instruction and the destination, and answers the first
  instruction of the prototype. The spec does not say how far the base moves for the
  registers of the new frame; the model leaves the base where it is. The first form
  names a binding of an environment as destination, the second a register slot.
\<close>

definition buildStackFrame_env ::
  "Extern \<Rightarrow> Thread \<Rightarrow> ptr \<Rightarrow> bool \<Rightarrow> ptr \<Rightarrow> ptr \<Rightarrow> String \<Rightarrow> pc \<Rightarrow> pc \<times> Thread" where
  "buildStackFrame_env x t environment ownEnvironment proto env name returnpc =
     (x_entry x proto,
      (push t)\<lparr>t_frame :=
         \<lparr>f_environment = environment, f_ownEnvironment = ownEnvironment,
          f_prototype = proto, f_returnpc = returnpc, f_returnbase = t_base t,
          f_i = name, f_env = env\<rparr>\<rparr>)"

definition buildStackFrame_reg ::
  "Extern \<Rightarrow> Thread \<Rightarrow> ptr \<Rightarrow> bool \<Rightarrow> ptr \<Rightarrow> int \<Rightarrow> pc \<Rightarrow> pc \<times> Thread" where
  "buildStackFrame_reg x t environment ownEnvironment proto resultSlot returnpc =
     (x_entry x proto,
      (push t)\<lparr>t_frame :=
         \<lparr>f_environment = environment, f_ownEnvironment = ownEnvironment,
          f_prototype = proto, f_returnpc = returnpc, f_returnbase = t_base t,
          f_i = resultSlot, f_env = f_env (t_frame t)\<rparr>\<rparr>)"

subsection \<open>Operand fetch\<close>

definition not_found :: "Extern \<Rightarrow> String \<Rightarrow> error" where
  "not_found x name = Error (''Object '' @ [CHR 0x27] @ x_externStr x name @ [CHR 0x27] @ '' not found'')"

definition forceReg :: "Extern \<Rightarrow> Thread \<Rightarrow> pc \<Rightarrow> Value \<Rightarrow> String \<Rightarrow> error + pc \<times> Thread" where
  "forceReg x t inst av name =
     (if isPromise av then
        Inr (buildStackFrame_env x t (e_dynamic (t_heap t (v_environment av))) False
               (v_prototype av) (v_environment av) name inst)
      else if isDefault av then
        Inr (buildStackFrame_env x t (v_environment av) False
               (v_prototype av) (v_environment av) name inst)
      else Inl (not_found x name))"

definition REGISTER :: "Thread \<Rightarrow> int \<Rightarrow> Value" where
  "REGISTER t k = t_registers t (t_base t - k)"

text \<open>
  The macro \<^verbatim>\<open>OPERAND(a, i)\<close> either binds the operand or leaves the instruction with
  the answer of \<^verbatim>\<open>forceReg\<close>.
\<close>

datatype fetch = Fetched Value | Forced "error + pc \<times> Thread"

definition UNCHECKED_OPERAND :: "Extern \<Rightarrow> Thread \<Rightarrow> int \<Rightarrow> Value" where
  "UNCHECKED_OPERAND x t k =
     (if k \<le> 0 then REGISTER t k
      else x_getRecursive x (t_heap t) (f_environment (t_frame t)) k)"

definition OPERAND :: "Extern \<Rightarrow> Thread \<Rightarrow> pc \<Rightarrow> int \<Rightarrow> fetch" where
  "OPERAND x t inst k =
     (if k \<le> 0 then Fetched (REGISTER t k)
      else let av = x_getRecursive x (t_heap t) (f_environment (t_frame t)) k
           in if \<not> isConcrete av then Forced (forceReg x t inst av k) else Fetched av)"

subsection \<open>Control flow instructions\<close>

definition env_insert :: "(ptr \<Rightarrow> Environment) \<Rightarrow> ptr \<Rightarrow> String \<Rightarrow> Value \<Rightarrow> (ptr \<Rightarrow> Environment)" where
  "env_insert h e name v = h(e := (h e)\<lparr>e_bindings := (e_bindings (h e))(name := v)\<rparr>)"

definition ret_op :: "Extern \<Rightarrow> Thread \<Rightarrow> pc \<Rightarrow> Instruction \<Rightarrow> error + pc \<times> Thread" where
  "ret_op x t pc inst =
     (case OPERAND x t pc (inst_a inst) of
        Forced r \<Rightarrow> r
      | Fetched result \<Rightarrow>
          let t1 = (if f_ownEnvironment (t_frame t) \<and> x_isClosureSafe x result
                    then t\<lparr>t_environments := t_environments t @ [f_environment (t_frame t)]\<rparr>
                    else t);
              t2 = t1\<lparr>t_base := f_returnbase (t_frame t1)\<rparr>;
              t3 = (if f_i (t_frame t2) \<le> 0
                    then t2\<lparr>t_registers := (t_registers t2)(t_base t2 - f_i (t_frame t2) := result)\<rparr>
                    else t2\<lparr>t_heap := env_insert (t_heap t2) (f_env (t_frame t2)) (f_s (t_frame t2)) result\<rparr>);
              returnpc = f_returnpc (t_frame t3)
          in (case pop t3 of Inl e \<Rightarrow> Inl e | Inr t4 \<Rightarrow> Inr (returnpc, t4)))"

definition NA_needed :: error where
  "NA_needed = Error ''NA where TRUE/FALSE needed''"

definition jc_op :: "Extern \<Rightarrow> Thread \<Rightarrow> pc \<Rightarrow> Instruction \<Rightarrow> error + pc \<times> Thread" where
  "jc_op x t pc inst =
     (let cv = UNCHECKED_OPERAND x t (inst_c inst) in
      if isLogical1 cv then
        (if Logical_isTrue (v_c cv) then Inr (pc + inst_a inst, t)
         else if Logical_isFalse (v_c cv) then Inr (pc + inst_b inst, t)
         else Inl NA_needed)
      else if isInteger1 cv then
        (if Integer_isNA (v_i cv) then Inl NA_needed
         else if v_i cv \<noteq> 0 then Inr (pc + inst_a inst, t)
         else Inr (pc + inst_b inst, t))
      else if isDouble1 cv then
        (if Double_isNA (x_dNA x) (v_d cv) then Inl NA_needed
         else if double_nonzero (v_d cv) then Inr (pc + inst_a inst, t)
         else Inr (pc + inst_b inst, t))
      else if inst_c inst > 0 \<and> \<not> isConcrete cv then forceReg x t pc cv (inst_c inst)
      else Inl (Error ''Need single element logical in conditional jump''))"

subsection \<open>The JIT trigger\<close>

definition isRecordableType :: "Type \<Rightarrow> bool" where
  "isRecordableType ty = (ty = Type_Double \<or> ty = Type_Integer \<or> ty = Type_Logical)"

text \<open>
  \<^verbatim>\<open>trace\<close> answers what \<^verbatim>\<open>thread.trace.BeginTracing(thread, &inst)\<close> answers, or null.
  The recorder is not among the sources, so the model keeps the call itself:
  \<open>BeginTracing inst\<close> is the hand-over to the recorder at instruction \<open>inst\<close>, \<open>NoTrace\<close>
  the null pointer.
\<close>

datatype jit_entry = BeginTracing pc | NoTrace

definition trace_tl :: "Extern \<Rightarrow> Thread \<Rightarrow> pc \<Rightarrow> Type \<Rightarrow> int \<Rightarrow> jit_entry" where
  "trace_tl x t inst ty len =
     (if x_ENABLE_JIT x \<and> t_jitEnabled t \<and> isRecordableType ty \<and> len \<ge> x_TRACE_VECTOR_WIDTH x
      then BeginTracing inst else NoTrace)"

definition trace1 :: "Extern \<Rightarrow> Thread \<Rightarrow> pc \<Rightarrow> Value \<Rightarrow> jit_entry" where
  "trace1 x t inst av = trace_tl x t inst (v_type av) (v_length av)"

definition trace2 :: "Extern \<Rightarrow> Thread \<Rightarrow> pc \<Rightarrow> Value \<Rightarrow> Value \<Rightarrow> jit_entry" where
  "trace2 x t inst av bv =
     (if x_ENABLE_JIT x \<and> t_jitEnabled t \<and> isRecordableType (v_type av) \<and> isRecordableType (v_type bv)
         \<and> (v_length av \<ge> x_TRACE_VECTOR_WIDTH x \<or> v_length bv \<ge> x_TRACE_VECTOR_WIDTH x)
      then BeginTracing inst else NoTrace)"

text \<open>
  \<^verbatim>\<open>seq_op\<close> up to its trigger: both operands are fetched, the requested length is the
  first element of \<^verbatim>\<open>Len\<close> coerced to Integer, and the trigger is asked with the type
  Integer and that number.
\<close>

definition seq_op_trace :: "Extern \<Rightarrow> Thread \<Rightarrow> pc \<Rightarrow> Value \<Rightarrow> Value \<Rightarrow> jit_entry" where
  "seq_op_trace x t inst Len Step =
     (let len = x_AsInteger0 x Len; step = x_AsInteger0 x Step
      in trace_tl x t inst Type_Integer len)"

text \<open>
  The trigger as the spec words it: the flag is set, every operand type is Double,
  Integer or Logical, and some operand is at least a tile long.
\<close>

definition spec_trigger :: "Extern \<Rightarrow> Thread \<Rightarrow> pc \<Rightarrow> Value list \<Rightarrow> jit_entry" where
  "spec_trigger x t inst operands =
     (if t_jitEnabled t \<and> list_all (\<lambda>v. isRecordableType (v_type v)) operands
         \<and> list_ex (\<lambda>v. v_length v \<ge> x_TRACE_VECTOR_WIDTH x) operands
      then BeginTracing inst else NoTrace)"

subsection \<open>The interpreter loop and eval\<close>

text \<open>
  \<^verbatim>\<open>interpret\<close> (here \<open>interpret_loop\<close>) dispatches until it stands on a \<^verbatim>\<open>done\<close>
  instruction. The bytecode behind an instruction pointer and the table of handlers are
  parameters: \<open>is_done pc\<close> says that the opcode at \<open>pc\<close> is \<^verbatim>\<open>done\<close>, \<open>step\<close> runs the
  handler of the instruction at \<open>pc\<close>. A handler that throws leaves the thread as it
  was at the throw. The loop need not end, so it is a partial function: \<open>None\<close> is a run
  that never returns.
\<close>

type_synonym handler = "Thread \<Rightarrow> pc \<Rightarrow> (error \<times> Thread) + (pc \<times> Thread)"

partial_function (option) interpret_loop ::
  "handler \<Rightarrow> (pc \<Rightarrow> bool) \<Rightarrow> Thread \<Rightarrow> pc \<Rightarrow> ((error \<times> Thread) + Thread) option" where
  "interpret_loop step is_done t pc =
     (if is_done pc then Some (Inr t)
      else case step t pc of
             Inl e \<Rightarrow> Some (Inl e)
           | Inr (pc', t') \<Rightarrow> interpret_loop step is_done t' pc')"

text \<open>\<^verbatim>\<open>stack.resize(n)\<close>: cut to \<open>n\<close> frames, or fill up with default frames.\<close>

definition default_frame :: StackFrame where
  "default_frame = \<lparr>f_environment = 0, f_ownEnvironment = False, f_prototype = 0,
     f_returnpc = 0, f_returnbase = 0, f_i = 0, f_env = 0\<rparr>"

definition resize :: "nat \<Rightarrow> StackFrame list \<Rightarrow> StackFrame list" where
  "resize n xs = take n xs @ replicate (n - List.length xs) default_frame"

text \<open>
  \<^verbatim>\<open>Thread::eval(prototype, environment)\<close>. \<open>eval_entry\<close> is its prologue: the
  half-built frame for the result, the result slot below the base, and the frame of the
  prototype, which returns to the local \<^verbatim>\<open>done\<close> instruction at \<open>done_pc\<close>; it answers
  the first instruction and the thread that \<^verbatim>\<open>interpret\<close> starts from. The result of \<open>eval\<close> is the thrown error together with the thread the caller
  sees, or the value of the result slot with that thread.
\<close>

definition eval_entry :: "Extern \<Rightarrow> pc \<Rightarrow> Thread \<Rightarrow> ptr \<Rightarrow> ptr \<Rightarrow> pc \<times> Thread" where
  "eval_entry x done_pc t proto environment =
     (let t1 = (push t)\<lparr>t_frame := (t_frame t)\<lparr>f_environment := 0, f_prototype := 0,
                                                f_returnbase := t_base t\<rparr>\<rparr>;
          t2 = t1\<lparr>t_base := t_base t1 - 1\<rparr>
      in buildStackFrame_reg x t2 environment False proto 0 done_pc)"

definition eval ::
  "Extern \<Rightarrow> handler \<Rightarrow> (pc \<Rightarrow> bool) \<Rightarrow> pc \<Rightarrow> Thread \<Rightarrow> ptr \<Rightarrow> ptr
   \<Rightarrow> ((error \<times> Thread) + (Value \<times> Thread)) option" where
  "eval x step is_done done_pc t proto environment =
     (let old_base = t_base t;
          stackSize = List.length (t_stack t);
          result = t_base t - 1;
          (run, t3) = eval_entry x done_pc t proto environment
      in case interpret_loop step is_done t3 run of
           None \<Rightarrow> None
         | Some (Inr t4) \<Rightarrow>
             (case pop (t4\<lparr>t_base := old_base\<rparr>) of
                Inl e \<Rightarrow> Some (Inl (e, t4\<lparr>t_base := old_base\<rparr>))
              | Inr t5 \<Rightarrow> Some (Inr (t_registers t5 result, t5)))
         | Some (Inl (e, t4)) \<Rightarrow>
             Some (Inl (e, t4\<lparr>t_base := old_base, t_stack := resize stackSize (t_stack t4)\<rparr>)))"

section \<open>The trace recorder\<close>

text \<open>
  \<^verbatim>\<open>IRRef\<close> and \<^verbatim>\<open>size_t\<close> are unsigned 64-bit words. A \<^verbatim>\<open>Shape\<close> is built as
  \<^verbatim>\<open>Shape(length, traceLength)\<close>: \<open>s_length\<close> is the IR reference of the node that
  produces the length (it is what \<^verbatim>\<open>rep\<close> and \<^verbatim>\<open>MergeShapes\<close> pass to \<^verbatim>\<open>insert\<close> as
  an operand), \<open>s_traceLength\<close> the length observed while recording.
\<close>

type_synonym IRRef = "64 word"

record Shape =
  s_length :: IRRef
  s_traceLength :: "64 word"

definition Shape_Empty :: Shape where
  "Shape_Empty = \<lparr>s_length = 0, s_traceLength = 0\<rparr>"

definition Shape_Scalar :: Shape where
  "Shape_Scalar = \<lparr>s_length = 1, s_traceLength = 1\<rparr>"


definition shape_ne :: "Shape \<Rightarrow> Shape \<Rightarrow> bool" where
  "shape_ne p q = (s_length p \<noteq> s_length q)"

text \<open>
  The opcodes of \<^verbatim>\<open>TraceOpCode\<close> that the sources name; \<open>op_bytecode\<close> stands for the
  remaining opcodes that the macro \<^verbatim>\<open>TRACE_ENUM\<close> generates from the bytecode tables.
\<close>

datatype TraceOpCode =
    op_loop | op_jmp | op_exit | op_nest | op_constant | op_sload | op_slength
  | op_load | op_elength | op_olength | op_alength | op_sstore | op_store
  | op_curenv | op_lenv | op_denv | op_cenv | op_newenv | op_push | op_kill
  | op_gtrue | op_gfalse | op_gproto | op_phi | op_rep | op_seq | op_gather
  | op_scatter | op_length | op_asdouble | op_asinteger | op_aslogical
  | op_ascharacter | op_le | op_gt | op_lt | op_land | op_add | op_sub
  | op_ifelse | op_nop | op_repscalar | op_bytecode string

record IR =
  ir_op :: TraceOpCode
  ir_a :: IRRef
  ir_b :: IRRef
  ir_c :: IRRef
  ir_type :: Type
  ir_in :: Shape
  ir_out :: Shape

record Reenter =
  reenter :: pc
  inScope :: bool

text \<open>
  The recorder state that the functions below touch: the recorded trace, the optimised
  code, the reenter records keyed by IR position, the constant pool and the fusion
  marks.
\<close>

record JIT =
  jit_trace :: "IR list"
  jit_code :: "IR list"
  jit_reenters :: "IRRef \<rightharpoonup> Reenter"
  jit_constants :: "Value list"
  jit_fusable :: "bool list"


text \<open>
  Modelled from the spec: \<^verbatim>\<open>makeConstant\<close> (absent) pools the value and yields a
  \<^verbatim>\<open>constant\<close> node whose first operand is the pool index (that is how \<^verbatim>\<open>JIT::dump\<close>
  reads it back); a constant has no input and one element of output.
\<close>

definition makeConstant :: "JIT \<Rightarrow> Value \<Rightarrow> IR \<times> JIT" where
  "makeConstant j v =
     (\<lparr>ir_op = op_constant, ir_a = of_nat (List.length (jit_constants j)), ir_b = 0, ir_c = 0,
       ir_type = v_type v, ir_in = Shape_Empty, ir_out = Shape_Scalar\<rparr>,
      j\<lparr>jit_constants := jit_constants j @ [v]\<rparr>)"

text \<open>\<^verbatim>\<open>JIT::constant\<close>.\<close>

definition constant_ir :: "JIT \<Rightarrow> Value \<Rightarrow> IRRef \<times> JIT" where
  "constant_ir j v =
     (let (ir, j1) = makeConstant j v;
          t = jit_trace j1 @ [ir]
      in (of_nat (List.length t) - 1, j1\<lparr>jit_trace := t\<rparr>))"

text \<open>\<^verbatim>\<open>Integer::c(n)\<close>: the Integer vector of length 1 holding \<open>n\<close>.\<close>

definition Integer_c :: "64 word \<Rightarrow> Value" where
  "Integer_c n = \<lparr>v_type = Type_Integer, v_length = 1, v_c = Logical_False, v_i = n, v_d = 0,
     v_prototype = 0, v_environment = 0\<rparr>"

text \<open>
  \<^verbatim>\<open>SpecializeLength(length, irlength, inst)\<close>; the threshold \<^verbatim>\<open>SPECIALIZE_LENGTH\<close> is
  the parameter \<open>thr\<close>.
\<close>

definition SpecializeLength :: "64 word \<Rightarrow> JIT \<Rightarrow> 64 word \<Rightarrow> IRRef \<Rightarrow> pc \<Rightarrow> Shape \<times> JIT" where
  "SpecializeLength thr j len irlength inst =
     (if len \<le> thr then
        (let (s, j1) = constant_ir j (Integer_c len)
         in (\<lparr>s_length = s, s_traceLength = len\<rparr>, j1))
      else (\<lparr>s_length = irlength, s_traceLength = len\<rparr>, j))"

text \<open>
  Modelled from the spec: the vector variants (\<^verbatim>\<open>isVector\<close>, absent) are Logical,
  Integer, Double, Character, Complex and List.
\<close>

definition isVector :: "Value \<Rightarrow> bool" where
  "isVector v = (v_type v \<in> {Type_Logical, Type_Integer, Type_Double, Type_Character,
                              Type_Complex, Type_List})"

definition SpecializeValue :: "64 word \<Rightarrow> JIT \<Rightarrow> Value \<Rightarrow> IR \<Rightarrow> pc \<Rightarrow> Shape \<times> JIT" where
  "SpecializeValue thr j v ir inst =
     (if v_type v = Type_Null then (Shape_Empty, j)
      else if isVector v then
        (let j1 = j\<lparr>jit_trace := jit_trace j @ [ir]\<rparr>
         in SpecializeLength thr j1 (word_of_int (v_length v))
              (of_nat (List.length (jit_trace j1)) - 1) inst)
      else (Shape_Scalar, j))"

text \<open>
  The nodes that test a predicate and leave the trace when it fails: \<^verbatim>\<open>gtrue\<close>,
  \<^verbatim>\<open>gfalse\<close>, \<^verbatim>\<open>gproto\<close>.
\<close>

definition is_guard :: "IR \<Rightarrow> bool" where
  "is_guard ir = (ir_op ir = op_gtrue \<or> ir_op ir = op_gfalse \<or> ir_op ir = op_gproto)"

subsection \<open>Shape merging\<close>




section \<open>The scheduler\<close>

text \<open>
  \<^verbatim>\<open>JIT::schedule\<close>: one forward pass over the code with the running group shape
  \<open>gSize\<close> and the members \<open>gMembers\<close> of the running group. The answer of the loop is the
  vector \<^verbatim>\<open>fusable\<close>.
\<close>

definition is_boundary :: "IR \<Rightarrow> Shape \<Rightarrow> IRRef set \<Rightarrow> bool" where
  "is_boundary ir gSize gMembers =
     (shape_ne (ir_in ir) gSize
      \<or> (ir_op ir = op_scatter \<and> ir_c ir \<in> gMembers)
      \<or> (ir_op ir = op_gather \<and> ir_c ir \<in> gMembers)
      \<or> ir_op ir = op_gtrue
      \<or> ir_op ir = op_gfalse
      \<or> ir_op ir = op_load
      \<or> ir_op ir = op_sload)"

fun schedule_loop :: "IR list \<Rightarrow> IRRef \<Rightarrow> Shape \<Rightarrow> IRRef set \<Rightarrow> bool list" where
  "schedule_loop [] k gSize gMembers = []"
| "schedule_loop (ir # rest) k gSize gMembers =
     (let bd = is_boundary ir gSize gMembers;
          gSize1 = (if bd then ir_in ir else gSize);
          m0 = (if bd then {} else gMembers);
          m1 = insert k m0;
          m2 = (if ir_op ir = op_gather then insert (ir_b ir) m1 else m1);
          m3 = (if ir_op ir = op_scatter then insert (ir_c ir) m2 else m2)
      in (\<not> bd) # schedule_loop rest (k + 1) gSize1 m3)"

definition schedule :: "JIT \<Rightarrow> JIT" where
  "schedule j = j\<lparr>jit_fusable :=
     schedule_loop (jit_code j) 0 \<lparr>s_length = - 1, s_traceLength = - 1\<rparr> {}\<rparr>"


text \<open>
  The same pass as the spec words it: a node is a boundary if its input shape differs
  from the shape of the running group, if it is a guard, a load or an \<^verbatim>\<open>sload\<close>, or if
  it is a gather or scatter whose base vector has been seen in the running group. The
  base vector is the first operand of a gather (\<^verbatim>\<open>gather a b\<close> reads \<open>a\<close> at the
  indices \<open>b\<close>) and the third of a scatter.
\<close>

definition base_vector :: "IR \<Rightarrow> IRRef" where
  "base_vector ir = (if ir_op ir = op_gather then ir_a ir else ir_c ir)"

definition is_boundary_spec :: "IR \<Rightarrow> Shape \<Rightarrow> IRRef set \<Rightarrow> bool" where
  "is_boundary_spec ir gSize seen =
     (shape_ne (ir_in ir) gSize
      \<or> ir_op ir = op_gtrue \<or> ir_op ir = op_gfalse
      \<or> ir_op ir = op_load \<or> ir_op ir = op_sload
      \<or> ((ir_op ir = op_gather \<or> ir_op ir = op_scatter) \<and> base_vector ir \<in> seen))"

fun schedule_spec_loop :: "IR list \<Rightarrow> IRRef \<Rightarrow> Shape \<Rightarrow> IRRef set \<Rightarrow> bool list" where
  "schedule_spec_loop [] k gSize seen = []"
| "schedule_spec_loop (ir # rest) k gSize seen =
     (let bd = is_boundary_spec ir gSize seen;
          gSize1 = (if bd then ir_in ir else gSize);
          s0 = (if bd then {} else seen);
          s1 = insert k s0;
          s2 = (if ir_op ir = op_gather \<or> ir_op ir = op_scatter
                then insert (base_vector ir) s1 else s1)
      in (\<not> bd) # schedule_spec_loop rest (k + 1) gSize1 s2)"

section \<open>The tile interpreter: register allocation\<close>

text \<open>
  The cast opcodes of \<^verbatim>\<open>TraceBC\<close> and the two opcodes next to them; \<open>bc_other\<close> stands
  for the arithmetic opcodes that the macros generate (\<^verbatim>\<open>adddvv\<close>, \<^verbatim>\<open>sumd\<close>, ...).
\<close>

datatype TraceBC =
    bc_lnot | bc_seq | bc_casti2d | bc_castd2i | bc_castl2i | bc_castl2d | bc_casti2l
  | bc_castd2l | bc_other string

definition is_widening_cast :: "TraceBC \<Rightarrow> bool" where
  "is_widening_cast e = (e = bc_castl2i \<or> e = bc_castl2d)"

text \<open>
  A pointer held in \<^verbatim>\<open>r.p\<close>: null, the tile buffer \<^verbatim>\<open>registers[n]\<close> for the \<open>n\<close> that
  \<^verbatim>\<open>allocate\<close> answered, or memory outside the register file (the destination of a
  store), named by its address. An operand is an immediate or the address of a pointer
  cell: \<open>Slot n\<close> is \<^verbatim>\<open>&insts[n].r.p\<close>, the result pointer of instruction \<open>n\<close>, and
  \<open>LoadCell n\<close> is \<^verbatim>\<open>&nodes[n].loadv.p\<close>.
\<close>

datatype pointer = NULL | Register int | Memory nat

datatype Operand = Slot nat | LoadCell nat | Imm "64 word"

record TraceInst =
  ti_bc :: TraceBC
  ti_flags :: "8 word"
  ti_r :: pointer
  ti_a :: Operand
  ti_b :: Operand

definition REG_R :: "8 word" where "REG_R = 1"
definition REG_A :: "8 word" where "REG_A = 2"
definition REG_B :: "8 word" where "REG_B = 4"

text \<open>
  The allocator is a 32-bit mask of free registers. \<^verbatim>\<open>ffs\<close> is one more than the index
  of the lowest set bit, and 0 for the empty mask. \<open>shl1 reg\<close> is \<^verbatim>\<open>1 << reg\<close> on a
  32-bit \<^verbatim>\<open>int\<close>: the count is taken modulo 32, which is what the x86-64 shift does
  with a count that C++ leaves undefined (negative, or 32 and more). So \<^verbatim>\<open>allocate\<close> on
  the empty mask answers \<open>-1\<close> and goes on, as the code does.
\<close>

definition ffs :: "32 word \<Rightarrow> nat" where
  "ffs w = (case filter (bit w) [0..<32] of [] \<Rightarrow> 0 | n # _ \<Rightarrow> n + 1)"

definition shl1 :: "int \<Rightarrow> 32 word" where
  "shl1 reg = push_bit (nat (reg mod 32)) 1"

definition allocate :: "32 word \<Rightarrow> int \<times> 32 word" where
  "allocate w = (let reg = int (ffs w) - 1 in (reg, w AND NOT (shl1 reg)))"

definition free :: "int \<Rightarrow> 32 word \<Rightarrow> 32 word" where
  "free reg w = w OR shl1 reg"

text \<open>
  \<^verbatim>\<open>((double*)inst.r.p - &registers[0][0]) / TRACE_VECTOR_WIDTH\<close>: for \<^verbatim>\<open>registers[n]\<close>
  the index is \<open>n\<close>. For any other pointer the number depends on where that memory lies
  relative to the register file; the parameter \<open>idx\<close> is that layout.
\<close>

definition reg_index :: "(pointer \<Rightarrow> int) \<Rightarrow> pointer \<Rightarrow> int" where
  "reg_index idx p = (case p of Register n \<Rightarrow> n | _ \<Rightarrow> idx p)"

text \<open>
  The state of the second pass of \<^verbatim>\<open>TraceInterpret::compile\<close>: the instructions, the
  pointer cells of the \<^verbatim>\<open>loadv\<close> nodes and the allocator.
\<close>

record alloc_state =
  insts :: "TraceInst list"
  loadv_p :: "nat \<Rightarrow> pointer"
  free_reg :: "32 word"

definition read_cell :: "alloc_state \<Rightarrow> Operand \<Rightarrow> error + pointer" where
  "read_cell s opnd =
     (case opnd of
        Slot n \<Rightarrow> (if n < List.length (insts s) then Inr (ti_r (insts s ! n))
                   else Inl (Undefined ''operand outside the instruction array''))
      | LoadCell n \<Rightarrow> Inr (loadv_p s n)
      | Imm w \<Rightarrow> Inl (Undefined ''immediate operand read as a pointer''))"

definition write_cell :: "alloc_state \<Rightarrow> Operand \<Rightarrow> pointer \<Rightarrow> alloc_state" where
  "write_cell s opnd p =
     (case opnd of
        Slot n \<Rightarrow> s\<lparr>insts := (insts s)[n := (insts s ! n)\<lparr>ti_r := p\<rparr>]\<rparr>
      | LoadCell n \<Rightarrow> s\<lparr>loadv_p := (loadv_p s)(n := p)\<rparr>
      | Imm w \<Rightarrow> s)"

text \<open>
  The three parts of the loop body, for the instruction at index \<open>k\<close>. The first part
  frees the register index of whatever the result pointer is, also of a pointer that a
  \<^verbatim>\<open>storec\<close> has set (a \<^verbatim>\<open>storev\<close> clears \<^verbatim>\<open>REG_R\<close>, a \<^verbatim>\<open>storec\<close> does not).
\<close>

definition alloc_R :: "(pointer \<Rightarrow> int) \<Rightarrow> nat \<Rightarrow> alloc_state \<Rightarrow> alloc_state" where
  "alloc_R idx k s =
     (if ti_flags (insts s ! k) AND REG_R \<noteq> 0 then
        (let s1 = (if ti_r (insts s ! k) = NULL then
                     (let (reg, w) = allocate (free_reg s)
                      in (write_cell s (Slot k) (Register reg))\<lparr>free_reg := w\<rparr>)
                   else s);
             reg = reg_index idx (ti_r (insts s1 ! k))
         in s1\<lparr>free_reg := free reg (free_reg s1)\<rparr>)
      else s)"

definition alloc_A :: "nat \<Rightarrow> alloc_state \<Rightarrow> error + alloc_state" where
  "alloc_A k s =
     (if ti_flags (insts s ! k) AND REG_A \<noteq> 0 then
        (case read_cell s (ti_a (insts s ! k)) of
           Inl e \<Rightarrow> Inl e
         | Inr p \<Rightarrow>
             if p = NULL then
               (let (reg, w) = allocate (free_reg s);
                    s1 = (write_cell s (ti_a (insts s ! k)) (Register reg))\<lparr>free_reg := w\<rparr>
                in if is_widening_cast (ti_bc (insts s1 ! k))
                      \<and> Inr (ti_r (insts s1 ! k)) = read_cell s1 (ti_a (insts s1 ! k))
                   then (let (reg2, w2) = allocate (free_reg s1);
                             s2 = (write_cell s1 (ti_a (insts s1 ! k)) (Register reg2))
                                    \<lparr>free_reg := w2\<rparr>
                         in Inr (s2\<lparr>free_reg := free reg (free_reg s2)\<rparr>))
                   else Inr s1)
             else Inr s)
      else Inr s)"

definition alloc_B :: "nat \<Rightarrow> alloc_state \<Rightarrow> error + alloc_state" where
  "alloc_B k s =
     (if ti_flags (insts s ! k) AND REG_B \<noteq> 0 then
        (case read_cell s (ti_b (insts s ! k)) of
           Inl e \<Rightarrow> Inl e
         | Inr p \<Rightarrow>
             if p = NULL then
               (let (reg, w) = allocate (free_reg s)
                in Inr ((write_cell s (ti_b (insts s ! k)) (Register reg))\<lparr>free_reg := w\<rparr>))
             else Inr s)
      else Inr s)"

definition alloc_step :: "(pointer \<Rightarrow> int) \<Rightarrow> nat \<Rightarrow> alloc_state \<Rightarrow> error + alloc_state" where
  "alloc_step idx k s =
     (case alloc_A k (alloc_R idx k s) of Inl e \<Rightarrow> Inl e | Inr s2 \<Rightarrow> alloc_B k s2)"

text \<open>\<^verbatim>\<open>for(int i = n_insts; i > 0; i--)\<close> on \<^verbatim>\<open>insts[i - 1]\<close>.\<close>

fun alloc_loop :: "(pointer \<Rightarrow> int) \<Rightarrow> nat \<Rightarrow> alloc_state \<Rightarrow> error + alloc_state" where
  "alloc_loop idx 0 s = Inr s"
| "alloc_loop idx (Suc k) s =
     (case alloc_step idx k s of Inl e \<Rightarrow> Inl e | Inr s1 \<Rightarrow> alloc_loop idx k s1)"

definition register_allocation ::
  "(pointer \<Rightarrow> int) \<Rightarrow> TraceInst list \<Rightarrow> (nat \<Rightarrow> pointer) \<Rightarrow> error + alloc_state" where
  "register_allocation idx is lp =
     alloc_loop idx (List.length is) \<lparr>insts = is, loadv_p = lp, free_reg = NOT 0\<rparr>"

text \<open>
  What the first pass of \<^verbatim>\<open>compile\<close> hands to the second: a register operand is the
  result cell of an earlier instruction (\<^verbatim>\<open>GetOperand\<close> takes it from
  \<^verbatim>\<open>reference_to_instruction\<close>, which is filled as the instructions are emitted), and
  no result pointer is a register yet (it is null, or the destination of a store).
\<close>

definition selected_inst :: "nat \<Rightarrow> TraceInst \<Rightarrow> bool" where
  "selected_inst k ti =
     ((ti_flags ti AND REG_A \<noteq> 0 \<longrightarrow> (case ti_a ti of Slot n \<Rightarrow> n < k | _ \<Rightarrow> False))
      \<and> (ti_flags ti AND REG_B \<noteq> 0 \<longrightarrow> (case ti_b ti of Slot n \<Rightarrow> n < k | _ \<Rightarrow> False))
      \<and> (case ti_r ti of Register n \<Rightarrow> False | _ \<Rightarrow> True))"

definition selected :: "TraceInst list \<Rightarrow> bool" where
  "selected is = list_all (\<lambda>k. selected_inst k (is ! k)) [0..<List.length is]"

text \<open>
  Instruction \<open>k\<close> reads and writes one register: its source operand is a result cell
  that holds the same register as its own result pointer.
\<close>

definition same_register :: "TraceInst list \<Rightarrow> nat \<Rightarrow> bool" where
  "same_register is k =
     (case ti_a (is ! k) of
        Slot n \<Rightarrow> (case ti_r (is ! k) of
                     Register r \<Rightarrow> n < List.length is \<and> ti_r (is ! n) = Register r
                   | _ \<Rightarrow> False)
      | _ \<Rightarrow> False)"

section \<open>Concrete inputs\<close>

definition val0 :: Value where
  "val0 = \<lparr>v_type = Type_Nil, v_length = 0, v_c = Logical_False, v_i = 0, v_d = 0,
     v_prototype = 0, v_environment = 0\<rparr>"

definition env0 :: Environment where
  "env0 = \<lparr>e_bindings = (\<lambda>n. val0), e_lexical = 0, e_dynamic = 0\<rparr>"

definition x0 :: Extern where
  "x0 = \<lparr>x_entry = (\<lambda>p. 100), x_externStr = (\<lambda>n. ''x''),
     x_getRecursive = (\<lambda>h e n. e_bindings (h e) n),
     x_isClosureSafe = (\<lambda>v. v_type v \<noteq> Type_Function),
     x_dNA = 0x7FF00000000007A2, x_AsInteger0 = (\<lambda>v. sint (v_i v)),
     x_ENABLE_JIT = True, x_TRACE_VECTOR_WIDTH = 128\<rparr>"

definition thread0 :: Thread where
  "thread0 = \<lparr>t_base = 10, t_registers = (\<lambda>n. val0), t_frame = default_frame, t_stack = [],
     t_environments = [], t_heap = (\<lambda>p. env0), t_jitEnabled = True\<rparr>"

text \<open>
  A promise and a default for the name 3, both closed over environment 4, whose dynamic
  parent is environment 9; \<open>named v\<close> is the thread whose current environment binds every
  name to \<open>v\<close>.
\<close>

definition promise3 :: Value where
  "promise3 = val0\<lparr>v_type := Type_Promise, v_prototype := 6, v_environment := 4\<rparr>"

definition default3 :: Value where
  "default3 = val0\<lparr>v_type := Type_Default, v_prototype := 6, v_environment := 4\<rparr>"

definition named :: "Value \<Rightarrow> Thread" where
  "named v = thread0\<lparr>t_heap := (\<lambda>p. \<lparr>e_bindings = (\<lambda>n. v), e_lexical = 0, e_dynamic = 9\<rparr>)\<rparr>"

text \<open>
  A thread inside a call: the current frame owns environment 4 and returns to
  instruction 20 with base 12 and destination register 1; one frame is saved below it.
\<close>

definition callee_frame :: StackFrame where
  "callee_frame = \<lparr>f_environment = 4, f_ownEnvironment = True, f_prototype = 6,
     f_returnpc = 20, f_returnbase = 12, f_i = - 1, f_env = 0\<rparr>"

definition in_call :: Thread where
  "in_call = thread0\<lparr>t_frame := callee_frame, t_stack := [default_frame],
     t_registers := (t_registers thread0)(10 := Integer_c 42)\<rparr>"

definition ret_inst :: Instruction where
  "ret_inst = \<lparr>inst_a = 0, inst_b = 0, inst_c = 0\<rparr>"

text \<open>A handler table whose every instruction throws after pushing a frame.\<close>

definition throwing :: handler where
  "throwing t pc = Inl (Error ''no'', push t)"

text \<open>The thread whose register \<open>0\<close> (at the base) holds \<open>v\<close>.\<close>

definition with_reg0 :: "Value \<Rightarrow> Thread" where
  "with_reg0 v = thread0\<lparr>t_registers := (t_registers thread0)(10 := v)\<rparr>"

definition jc_inst :: Instruction where
  "jc_inst = \<lparr>inst_a = 5, inst_b = 2, inst_c = 0\<rparr>"

text \<open>Scalars of the three types that \<^verbatim>\<open>jc\<close> accepts; a double is given by its bits.\<close>

definition scalar_l :: "lgl \<Rightarrow> Value" where
  "scalar_l b = val0\<lparr>v_type := Type_Logical, v_length := 1, v_c := b\<rparr>"

definition scalar_i :: "64 word \<Rightarrow> Value" where
  "scalar_i n = val0\<lparr>v_type := Type_Integer, v_length := 1, v_i := n\<rparr>"

definition scalar_d :: "64 word \<Rightarrow> Value" where
  "scalar_d bits = val0\<lparr>v_type := Type_Double, v_length := 1, v_d := bits\<rparr>"

text \<open>The recorder before anything is recorded.\<close>

definition jit0 :: JIT where
  "jit0 = \<lparr>jit_trace = [], jit_code = [], jit_reenters = Map.empty, jit_constants = [],
     jit_fusable = []\<rparr>"

definition ir0 :: IR where
  "ir0 = \<lparr>ir_op = op_nop, ir_a = 0, ir_b = 0, ir_c = 0, ir_type = Type_Nil,
     ir_in = Shape_Empty, ir_out = Shape_Empty\<rparr>"

text \<open>
  Code that writes into a vector and then reads it: node 1 is the length of the vector
  in slot 1, nodes 2 to 4 load the vector, an index vector and the new values, node 5
  scatters the values into the vector, node 6 gathers from the vector.
\<close>

definition vec200 :: Shape where
  "vec200 = \<lparr>s_length = 1, s_traceLength = 200\<rparr>"

definition fusion_code :: "IR list" where
  "fusion_code =
     [ir0\<lparr>ir_op := op_constant, ir_type := Type_Integer, ir_out := Shape_Scalar\<rparr>,
      ir0\<lparr>ir_op := op_slength, ir_a := - 1, ir_b := 1, ir_type := Type_Integer,
          ir_out := Shape_Scalar\<rparr>,
      ir0\<lparr>ir_op := op_sload, ir_a := - 1, ir_b := 1, ir_type := Type_Double, ir_out := vec200\<rparr>,
      ir0\<lparr>ir_op := op_sload, ir_a := - 1, ir_b := 2, ir_type := Type_Integer, ir_out := vec200\<rparr>,
      ir0\<lparr>ir_op := op_sload, ir_a := - 1, ir_b := 3, ir_type := Type_Double, ir_out := vec200\<rparr>,
      ir0\<lparr>ir_op := op_scatter, ir_a := 4, ir_b := 3, ir_c := 2, ir_type := Type_Double,
          ir_in := vec200, ir_out := vec200\<rparr>,
      ir0\<lparr>ir_op := op_gather, ir_a := 2, ir_b := 3, ir_c := 0, ir_type := Type_Double,
          ir_in := vec200, ir_out := vec200\<rparr>]"

text \<open>
  The instructions of a trace over a logical input vector \<open>x\<close>: \<open>!x\<close>, its cast to
  double, the sum of that cast, and the cast of \<open>!x\<close> to integer. The sum is a scalar
  output: \<^verbatim>\<open>storec\<close> has set its result pointer (memory 7) and left \<^verbatim>\<open>REG_R\<close>. The
  integer cast is a vector output: \<^verbatim>\<open>storev\<close> has set its result pointer (memory 8) and
  cleared \<^verbatim>\<open>REG_R\<close>. \<open>storev_insts\<close> is the same trace with \<^verbatim>\<open>REG_R\<close> cleared on the sum
  as well. \<open>near\<close> is a layout in which the pointer arithmetic on a pointer outside the
  register file yields the index 0.
\<close>

definition fold_insts :: "TraceInst list" where
  "fold_insts =
     [\<lparr>ti_bc = bc_lnot, ti_flags = 1, ti_r = NULL, ti_a = LoadCell 0, ti_b = Imm 0\<rparr>,
      \<lparr>ti_bc = bc_castl2d, ti_flags = 3, ti_r = NULL, ti_a = Slot 0, ti_b = Imm 0\<rparr>,
      \<lparr>ti_bc = bc_other ''sumd'', ti_flags = 3, ti_r = Memory 7, ti_a = Slot 1, ti_b = Imm 0\<rparr>,
      \<lparr>ti_bc = bc_castl2i, ti_flags = 2, ti_r = Memory 8, ti_a = Slot 0, ti_b = Imm 0\<rparr>]"

definition storev_insts :: "TraceInst list" where
  "storev_insts = fold_insts[2 := (fold_insts ! 2)\<lparr>ti_flags := 2\<rparr>]"

definition inputs :: "nat \<Rightarrow> pointer" where
  "inputs n = Memory n"

definition near :: "pointer \<Rightarrow> int" where
  "near p = 0"

definition fold_result :: alloc_state where
  "fold_result =
     \<lparr>insts =
        [\<lparr>ti_bc = bc_lnot, ti_flags = 1, ti_r = Register 0, ti_a = LoadCell 0, ti_b = Imm 0\<rparr>,
         \<lparr>ti_bc = bc_castl2d, ti_flags = 3, ti_r = Register 0, ti_a = Slot 0, ti_b = Imm 0\<rparr>,
         \<lparr>ti_bc = bc_other ''sumd'', ti_flags = 3, ti_r = Memory 7, ti_a = Slot 1, ti_b = Imm 0\<rparr>,
         \<lparr>ti_bc = bc_castl2i, ti_flags = 2, ti_r = Memory 8, ti_a = Slot 0, ti_b = Imm 0\<rparr>],
      loadv_p = inputs, free_reg = NOT 0\<rparr>"

definition storev_result :: alloc_state where
  "storev_result =
     \<lparr>insts =
        [\<lparr>ti_bc = bc_lnot, ti_flags = 1, ti_r = Register 0, ti_a = LoadCell 0, ti_b = Imm 0\<rparr>,
         \<lparr>ti_bc = bc_castl2d, ti_flags = 3, ti_r = Register 1, ti_a = Slot 0, ti_b = Imm 0\<rparr>,
         \<lparr>ti_bc = bc_other ''sumd'', ti_flags = 2, ti_r = Memory 7, ti_a = Slot 1, ti_b = Imm 0\<rparr>,
         \<lparr>ti_bc = bc_castl2i, ti_flags = 2, ti_r = Memory 8, ti_a = Slot 0, ti_b = Imm 0\<rparr>],
      loadv_p = inputs, free_reg = NOT 0\<rparr>"

text \<open>
  A thread inside a call whose result goes to the name 3 of environment 9, bound to
  Nil so far.
\<close>

definition in_call_named :: Thread where
  "in_call_named = in_call\<lparr>t_frame := callee_frame\<lparr>f_i := 3, f_env := 9\<rparr>\<rparr>"

section \<open>Properties of the interpreter\<close>

subsection \<open>Conditional jump\<close>

lemma fetch0: "UNCHECKED_OPERAND x0 (with_reg0 v) (inst_c jc_inst) = v"
  by (simp add: UNCHECKED_OPERAND_def REGISTER_def with_reg0_def thread0_def jc_inst_def)

text \<open>
  Claim C10. When the condition operand of \<^verbatim>\<open>jc\<close> is a Logical, Integer or Double of
  length 1, an NA raises "NA where TRUE/FALSE needed" and no branch is taken: the
  logical NA, the integer \<^verbatim>\<open>INT64_MIN\<close>, the double with the bits of the Double NA. Any
  other value jumps to the true target \<open>pc + a\<close> when it is true (an integer other than
  0, a double whose bits without the sign are not all 0, so every NaN but the NA) and to
  the false target \<open>pc + b\<close> otherwise (false, 0, \<open>0.0\<close> and \<open>-0.0\<close>), and the thread is
  left as it was.
\<close>

theorem jc_op_scalar_condition:
  "(v_type (UNCHECKED_OPERAND x t (inst_c inst)) = Type_Logical
      \<and> v_length (UNCHECKED_OPERAND x t (inst_c inst)) = 1 \<longrightarrow>
      jc_op x t pc inst =
        (case v_c (UNCHECKED_OPERAND x t (inst_c inst)) of
           Logical_NA \<Rightarrow> Inl (Error ''NA where TRUE/FALSE needed'')
         | Logical_True \<Rightarrow> Inr (pc + inst_a inst, t)
         | Logical_False \<Rightarrow> Inr (pc + inst_b inst, t)))
   \<and> (v_type (UNCHECKED_OPERAND x t (inst_c inst)) = Type_Integer
      \<and> v_length (UNCHECKED_OPERAND x t (inst_c inst)) = 1 \<longrightarrow>
      jc_op x t pc inst =
        (if v_i (UNCHECKED_OPERAND x t (inst_c inst)) = 0x8000000000000000
         then Inl (Error ''NA where TRUE/FALSE needed'')
         else if v_i (UNCHECKED_OPERAND x t (inst_c inst)) \<noteq> 0 then Inr (pc + inst_a inst, t)
         else Inr (pc + inst_b inst, t)))
   \<and> (v_type (UNCHECKED_OPERAND x t (inst_c inst)) = Type_Double
      \<and> v_length (UNCHECKED_OPERAND x t (inst_c inst)) = 1 \<longrightarrow>
      jc_op x t pc inst =
        (if v_d (UNCHECKED_OPERAND x t (inst_c inst)) = x_dNA x
         then Inl (Error ''NA where TRUE/FALSE needed'')
         else if v_d (UNCHECKED_OPERAND x t (inst_c inst)) AND 0x7FFFFFFFFFFFFFFF \<noteq> 0
              then Inr (pc + inst_a inst, t)
         else Inr (pc + inst_b inst, t)))"
  by (auto simp: jc_op_def Let_def isLogical1_def isInteger1_def isDouble1_def
        Logical_isTrue_def Logical_isFalse_def Integer_isNA_def Double_isNA_def
        double_nonzero_def NA_needed_def split: lgl.splits)

text \<open>
  The theorem with targets \<open>7 + 5\<close> and \<open>7 + 2\<close> and the condition in register 0: the
  three logicals; the integers NA, 3 and 0; the doubles NA, \<open>1.0\<close>, a quiet NaN, \<open>0.0\<close>
  and \<open>-0.0\<close>.
\<close>

theorem jc_op_scalar_condition_witness:
  "jc_op x0 (with_reg0 (scalar_l Logical_NA)) 7 jc_inst = Inl (Error ''NA where TRUE/FALSE needed'')
   \<and> jc_op x0 (with_reg0 (scalar_l Logical_True)) 7 jc_inst = Inr (12, with_reg0 (scalar_l Logical_True))
   \<and> jc_op x0 (with_reg0 (scalar_l Logical_False)) 7 jc_inst = Inr (9, with_reg0 (scalar_l Logical_False))
   \<and> jc_op x0 (with_reg0 (scalar_i 0x8000000000000000)) 7 jc_inst = Inl (Error ''NA where TRUE/FALSE needed'')
   \<and> jc_op x0 (with_reg0 (scalar_i 3)) 7 jc_inst = Inr (12, with_reg0 (scalar_i 3))
   \<and> jc_op x0 (with_reg0 (scalar_i 0)) 7 jc_inst = Inr (9, with_reg0 (scalar_i 0))
   \<and> jc_op x0 (with_reg0 (scalar_d 0x7FF00000000007A2)) 7 jc_inst = Inl (Error ''NA where TRUE/FALSE needed'')
   \<and> jc_op x0 (with_reg0 (scalar_d 0x3FF0000000000000)) 7 jc_inst = Inr (12, with_reg0 (scalar_d 0x3FF0000000000000))
   \<and> jc_op x0 (with_reg0 (scalar_d 0x7FF8000000000000)) 7 jc_inst = Inr (12, with_reg0 (scalar_d 0x7FF8000000000000))
   \<and> jc_op x0 (with_reg0 (scalar_d 0)) 7 jc_inst = Inr (9, with_reg0 (scalar_d 0))
   \<and> jc_op x0 (with_reg0 (scalar_d 0x8000000000000000)) 7 jc_inst = Inr (9, with_reg0 (scalar_d 0x8000000000000000))"
proof -
  have c0: "jc_op x0 (with_reg0 (scalar_l Logical_NA)) 7 jc_inst = Inl (Error ''NA where TRUE/FALSE needed'')"
    using jc_op_scalar_condition [of x0 "with_reg0 (scalar_l Logical_NA)" jc_inst 7]
    unfolding fetch0 by (simp add: scalar_l_def jc_inst_def x0_def)
  have c1: "jc_op x0 (with_reg0 (scalar_l Logical_True)) 7 jc_inst = Inr (12, with_reg0 (scalar_l Logical_True))"
    using jc_op_scalar_condition [of x0 "with_reg0 (scalar_l Logical_True)" jc_inst 7]
    unfolding fetch0 by (simp add: scalar_l_def jc_inst_def x0_def)
  have c2: "jc_op x0 (with_reg0 (scalar_l Logical_False)) 7 jc_inst = Inr (9, with_reg0 (scalar_l Logical_False))"
    using jc_op_scalar_condition [of x0 "with_reg0 (scalar_l Logical_False)" jc_inst 7]
    unfolding fetch0 by (simp add: scalar_l_def jc_inst_def x0_def)
  have c3: "jc_op x0 (with_reg0 (scalar_i 0x8000000000000000)) 7 jc_inst = Inl (Error ''NA where TRUE/FALSE needed'')"
    using jc_op_scalar_condition [of x0 "with_reg0 (scalar_i 0x8000000000000000)" jc_inst 7]
    unfolding fetch0 by (simp add: scalar_i_def jc_inst_def x0_def)
  have c4: "jc_op x0 (with_reg0 (scalar_i 3)) 7 jc_inst = Inr (12, with_reg0 (scalar_i 3))"
    using jc_op_scalar_condition [of x0 "with_reg0 (scalar_i 3)" jc_inst 7]
    unfolding fetch0 by (simp add: scalar_i_def jc_inst_def x0_def)
  have c5: "jc_op x0 (with_reg0 (scalar_i 0)) 7 jc_inst = Inr (9, with_reg0 (scalar_i 0))"
    using jc_op_scalar_condition [of x0 "with_reg0 (scalar_i 0)" jc_inst 7]
    unfolding fetch0 by (simp add: scalar_i_def jc_inst_def x0_def)
  have c6: "jc_op x0 (with_reg0 (scalar_d 0x7FF00000000007A2)) 7 jc_inst = Inl (Error ''NA where TRUE/FALSE needed'')"
    using jc_op_scalar_condition [of x0 "with_reg0 (scalar_d 0x7FF00000000007A2)" jc_inst 7]
    unfolding fetch0 by (simp add: scalar_d_def jc_inst_def x0_def)
  have c7: "jc_op x0 (with_reg0 (scalar_d 0x3FF0000000000000)) 7 jc_inst = Inr (12, with_reg0 (scalar_d 0x3FF0000000000000))"
    using jc_op_scalar_condition [of x0 "with_reg0 (scalar_d 0x3FF0000000000000)" jc_inst 7]
    unfolding fetch0 by (simp add: scalar_d_def jc_inst_def x0_def)
  have c8: "jc_op x0 (with_reg0 (scalar_d 0x7FF8000000000000)) 7 jc_inst = Inr (12, with_reg0 (scalar_d 0x7FF8000000000000))"
    using jc_op_scalar_condition [of x0 "with_reg0 (scalar_d 0x7FF8000000000000)" jc_inst 7]
    unfolding fetch0 by (simp add: scalar_d_def jc_inst_def x0_def)
  have c9: "jc_op x0 (with_reg0 (scalar_d 0)) 7 jc_inst = Inr (9, with_reg0 (scalar_d 0))"
    using jc_op_scalar_condition [of x0 "with_reg0 (scalar_d 0)" jc_inst 7]
    unfolding fetch0 by (simp add: scalar_d_def jc_inst_def x0_def)
  have c10: "jc_op x0 (with_reg0 (scalar_d 0x8000000000000000)) 7 jc_inst = Inr (9, with_reg0 (scalar_d 0x8000000000000000))"
    using jc_op_scalar_condition [of x0 "with_reg0 (scalar_d 0x8000000000000000)" jc_inst 7]
    unfolding fetch0 by (simp add: scalar_d_def jc_inst_def x0_def)
  from c0 c1 c2 c3 c4 c5 c6 c7 c8 c9 c10 show ?thesis by blast
qed

subsection \<open>Operand fetch, return and unwinding\<close>

text \<open>
  Claim C7. An operand fetch of a name (\<open>0 < k\<close>) whose binding is a Promise or a
  Default pushes a frame for the thunk and leaves the instruction: the new frame returns
  to the same instruction \<open>inst\<close> and writes to the name \<open>k\<close> in the environment the
  thunk was captured with. A Promise runs in the dynamic scope of that environment, a
  Default in that environment itself. A Nil binding raises "Object ... not found";
  a concrete binding is the operand.
\<close>

theorem OPERAND_force:
  "0 < k \<Longrightarrow> av = x_getRecursive x (t_heap t) (f_environment (t_frame t)) k \<Longrightarrow>
   (isPromise av \<longrightarrow>
      OPERAND x t inst k =
        Forced (Inr (x_entry x (v_prototype av),
          t\<lparr>t_stack := t_stack t @ [t_frame t],
            t_frame := \<lparr>f_environment = e_dynamic (t_heap t (v_environment av)),
                        f_ownEnvironment = False, f_prototype = v_prototype av,
                        f_returnpc = inst, f_returnbase = t_base t, f_i = k,
                        f_env = v_environment av\<rparr>\<rparr>)))
   \<and> (isDefault av \<longrightarrow>
      OPERAND x t inst k =
        Forced (Inr (x_entry x (v_prototype av),
          t\<lparr>t_stack := t_stack t @ [t_frame t],
            t_frame := \<lparr>f_environment = v_environment av,
                        f_ownEnvironment = False, f_prototype = v_prototype av,
                        f_returnpc = inst, f_returnbase = t_base t, f_i = k,
                        f_env = v_environment av\<rparr>\<rparr>)))
   \<and> (isNil av \<longrightarrow> OPERAND x t inst k = Forced (Inl (not_found x k)))
   \<and> (isConcrete av \<longrightarrow> OPERAND x t inst k = Fetched av)"
  by (auto simp: OPERAND_def Let_def forceReg_def buildStackFrame_env_def push_def
        isPromise_def isDefault_def isNil_def isConcrete_def)

lemma named_lookup: "x_getRecursive x0 (t_heap (named v)) (f_environment (t_frame (named v))) 3 = v"
  by (simp add: x0_def named_def thread0_def)

text \<open>
  The theorem at the name 3 bound to a promise, to a default, to Nil and to the
  integer 5.
\<close>

theorem OPERAND_force_witness:
  "OPERAND x0 (named promise3) 7 3 =
     Forced (Inr (100, (named promise3)\<lparr>t_stack := [default_frame],
        t_frame := \<lparr>f_environment = 9, f_ownEnvironment = False, f_prototype = 6,
                    f_returnpc = 7, f_returnbase = 10, f_i = 3, f_env = 4\<rparr>\<rparr>))
   \<and> OPERAND x0 (named default3) 7 3 =
     Forced (Inr (100, (named default3)\<lparr>t_stack := [default_frame],
        t_frame := \<lparr>f_environment = 4, f_ownEnvironment = False, f_prototype = 6,
                    f_returnpc = 7, f_returnbase = 10, f_i = 3, f_env = 4\<rparr>\<rparr>))
   \<and> OPERAND x0 (named val0) 7 3 = Forced (Inl (Error ''Object 'x' not found''))
   \<and> OPERAND x0 (named (Integer_c 5)) 7 3 = Fetched (Integer_c 5)"
proof -
  have p: "OPERAND x0 (named promise3) 7 3 =
     Forced (Inr (100, (named promise3)\<lparr>t_stack := [default_frame],
        t_frame := \<lparr>f_environment = 9, f_ownEnvironment = False, f_prototype = 6,
                    f_returnpc = 7, f_returnbase = 10, f_i = 3, f_env = 4\<rparr>\<rparr>))"
    using OPERAND_force [of 3 promise3 x0 "named promise3" 7]
    unfolding named_lookup
    by (simp add: isPromise_def promise3_def val0_def, simp add: x0_def named_def thread0_def)
  have d: "OPERAND x0 (named default3) 7 3 =
     Forced (Inr (100, (named default3)\<lparr>t_stack := [default_frame],
        t_frame := \<lparr>f_environment = 4, f_ownEnvironment = False, f_prototype = 6,
                    f_returnpc = 7, f_returnbase = 10, f_i = 3, f_env = 4\<rparr>\<rparr>))"
    using OPERAND_force [of 3 default3 x0 "named default3" 7]
    unfolding named_lookup
    by (simp add: isDefault_def default3_def val0_def, simp add: x0_def named_def thread0_def)
  have n: "OPERAND x0 (named val0) 7 3 = Forced (Inl (Error ''Object 'x' not found''))"
    using OPERAND_force [of 3 val0 x0 "named val0" 7]
    unfolding named_lookup
    by (simp add: isNil_def val0_def not_found_def x0_def)
  have c: "OPERAND x0 (named (Integer_c 5)) 7 3 = Fetched (Integer_c 5)"
    using OPERAND_force [of 3 "Integer_c 5" x0 "named (Integer_c 5)" 7]
    unfolding named_lookup
    by (simp add: isConcrete_def Integer_c_def)
  from p d n c show ?thesis by simp
qed

text \<open>
  Claim C8. When its operand is fetched (no thunk to force) and a frame is saved on the
  stack, \<^verbatim>\<open>ret\<close> continues at the return instruction of the frame, pops the frame and
  restores the saved base. With a destination index \<open>i\<close> that is not positive, the
  register slot \<open>returnbase - i\<close> holds the result afterwards, every other register and
  the environments are as before. With a positive destination, the binding of that
  name in the destination environment holds the result afterwards; the other bindings
  and the parents of that environment, the other environments and the registers are as
  before. The environment of the frame is appended to the free list exactly when the
  frame owns it and the result is closure-safe.
\<close>

theorem ret_op_returns:
  "OPERAND x t pc (inst_a inst) = Fetched result \<Longrightarrow> t_stack t \<noteq> [] \<Longrightarrow>
   \<exists>t'. ret_op x t pc inst = Inr (f_returnpc (t_frame t), t')
     \<and> t_frame t' = last (t_stack t)
     \<and> t_stack t' = butlast (t_stack t)
     \<and> t_base t' = f_returnbase (t_frame t)
     \<and> (f_i (t_frame t) \<le> 0 \<longrightarrow>
          t_registers t' (f_returnbase (t_frame t) - f_i (t_frame t)) = result
          \<and> (\<forall>n. n \<noteq> f_returnbase (t_frame t) - f_i (t_frame t) \<longrightarrow>
                 t_registers t' n = t_registers t n)
          \<and> t_heap t' = t_heap t)
     \<and> (0 < f_i (t_frame t) \<longrightarrow>
          e_bindings (t_heap t' (f_env (t_frame t))) (f_i (t_frame t)) = result
          \<and> (\<forall>n. n \<noteq> f_i (t_frame t) \<longrightarrow>
                 e_bindings (t_heap t' (f_env (t_frame t))) n
                   = e_bindings (t_heap t (f_env (t_frame t))) n)
          \<and> e_lexical (t_heap t' (f_env (t_frame t))) = e_lexical (t_heap t (f_env (t_frame t)))
          \<and> e_dynamic (t_heap t' (f_env (t_frame t))) = e_dynamic (t_heap t (f_env (t_frame t)))
          \<and> (\<forall>e. e \<noteq> f_env (t_frame t) \<longrightarrow> t_heap t' e = t_heap t e)
          \<and> t_registers t' = t_registers t)
     \<and> t_environments t' =
          (if f_ownEnvironment (t_frame t) \<and> x_isClosureSafe x result
           then t_environments t @ [f_environment (t_frame t)]
           else t_environments t)
     \<and> t_jitEnabled t' = t_jitEnabled t"
  by (simp add: ret_op_def Let_def pop_def env_insert_def f_s_def)

lemma in_call_fetch: "OPERAND x0 in_call 3 (inst_a ret_inst) = Fetched (Integer_c 42)"
  by (simp add: OPERAND_def REGISTER_def in_call_def thread0_def ret_inst_def)

lemma in_call_named_fetch: "OPERAND x0 in_call_named 3 (inst_a ret_inst) = Fetched (Integer_c 42)"
  by (simp add: OPERAND_def REGISTER_def in_call_named_def in_call_def thread0_def ret_inst_def)

text \<open>
  The theorem on a frame that owns environment 4 and returns the integer 42, once to
  register 1 of its caller (slot \<open>12 + 1\<close>) and once to the name 3 of environment 9.
\<close>

theorem ret_op_returns_witness:
  "(\<exists>t'. ret_op x0 in_call 3 ret_inst = Inr (20, t')
      \<and> t_frame t' = default_frame \<and> t_stack t' = [] \<and> t_base t' = 12
      \<and> t_registers t' 13 = Integer_c 42 \<and> t_registers t' 10 = Integer_c 42
      \<and> t_registers t' 11 = val0 \<and> t_heap t' = t_heap in_call
      \<and> t_environments t' = [4])
   \<and> (\<exists>t'. ret_op x0 in_call_named 3 ret_inst = Inr (20, t')
      \<and> t_frame t' = default_frame \<and> t_stack t' = [] \<and> t_base t' = 12
      \<and> e_bindings (t_heap t' 9) 3 = Integer_c 42 \<and> e_bindings (t_heap t' 9) 2 = val0
      \<and> e_bindings (t_heap t' 4) 3 = val0
      \<and> t_registers t' = t_registers in_call_named
      \<and> t_environments t' = [4])"
proof -
  have s: "t_stack in_call \<noteq> []" by (simp add: in_call_def)
  have sn: "t_stack in_call_named \<noteq> []" by (simp add: in_call_named_def in_call_def)
  from ret_op_returns [OF in_call_fetch s] obtain t1 where
    r1: "ret_op x0 in_call 3 ret_inst = Inr (f_returnpc (t_frame in_call), t1)"
    and f1: "t_frame t1 = last (t_stack in_call)" and k1: "t_stack t1 = butlast (t_stack in_call)"
    and b1: "t_base t1 = f_returnbase (t_frame in_call)"
    and g1: "f_i (t_frame in_call) \<le> 0 \<longrightarrow>
          t_registers t1 (f_returnbase (t_frame in_call) - f_i (t_frame in_call)) = Integer_c 42
          \<and> (\<forall>n. n \<noteq> f_returnbase (t_frame in_call) - f_i (t_frame in_call) \<longrightarrow>
                 t_registers t1 n = t_registers in_call n)
          \<and> t_heap t1 = t_heap in_call"
    and e1: "t_environments t1 =
          (if f_ownEnvironment (t_frame in_call) \<and> x_isClosureSafe x0 (Integer_c 42)
           then t_environments in_call @ [f_environment (t_frame in_call)]
           else t_environments in_call)"
    by blast
  have fr: "t_frame in_call = callee_frame" "t_stack in_call = [default_frame]"
    "t_environments in_call = []"
    "t_registers in_call = (\<lambda>n. val0)(10 := Integer_c 42)"
    by (simp_all add: in_call_def thread0_def)
  have cf: "f_returnpc callee_frame = 20" "f_returnbase callee_frame = 12" "f_i callee_frame = - 1"
    "f_ownEnvironment callee_frame" "f_environment callee_frame = 4"
    by (simp_all add: callee_frame_def)
  have safe: "x_isClosureSafe x0 (Integer_c 42)" by (simp add: x0_def Integer_c_def)
  have A: "\<exists>t'. ret_op x0 in_call 3 ret_inst = Inr (20, t')
      \<and> t_frame t' = default_frame \<and> t_stack t' = [] \<and> t_base t' = 12
      \<and> t_registers t' 13 = Integer_c 42 \<and> t_registers t' 10 = Integer_c 42
      \<and> t_registers t' 11 = val0 \<and> t_heap t' = t_heap in_call
      \<and> t_environments t' = [4]"
    using r1 f1 k1 b1 g1 e1 unfolding fr by (intro exI [of _ t1]) (simp add: safe cf)
  from ret_op_returns [OF in_call_named_fetch sn] obtain t2 where
    r2: "ret_op x0 in_call_named 3 ret_inst = Inr (f_returnpc (t_frame in_call_named), t2)"
    and f2: "t_frame t2 = last (t_stack in_call_named)"
    and k2: "t_stack t2 = butlast (t_stack in_call_named)"
    and b2: "t_base t2 = f_returnbase (t_frame in_call_named)"
    and g2: "0 < f_i (t_frame in_call_named) \<longrightarrow>
          e_bindings (t_heap t2 (f_env (t_frame in_call_named))) (f_i (t_frame in_call_named))
            = Integer_c 42
          \<and> (\<forall>n. n \<noteq> f_i (t_frame in_call_named) \<longrightarrow>
                 e_bindings (t_heap t2 (f_env (t_frame in_call_named))) n
                   = e_bindings (t_heap in_call_named (f_env (t_frame in_call_named))) n)
          \<and> e_lexical (t_heap t2 (f_env (t_frame in_call_named)))
              = e_lexical (t_heap in_call_named (f_env (t_frame in_call_named)))
          \<and> e_dynamic (t_heap t2 (f_env (t_frame in_call_named)))
              = e_dynamic (t_heap in_call_named (f_env (t_frame in_call_named)))
          \<and> (\<forall>e. e \<noteq> f_env (t_frame in_call_named) \<longrightarrow> t_heap t2 e = t_heap in_call_named e)
          \<and> t_registers t2 = t_registers in_call_named"
    and e2: "t_environments t2 =
          (if f_ownEnvironment (t_frame in_call_named) \<and> x_isClosureSafe x0 (Integer_c 42)
           then t_environments in_call_named @ [f_environment (t_frame in_call_named)]
           else t_environments in_call_named)"
    by blast
  have frn: "t_frame in_call_named = callee_frame\<lparr>f_i := 3, f_env := 9\<rparr>"
    "t_stack in_call_named = [default_frame]" "t_environments in_call_named = []"
    "t_heap in_call_named = (\<lambda>p. env0)"
    by (simp_all add: in_call_named_def in_call_def thread0_def)
  have B: "\<exists>t'. ret_op x0 in_call_named 3 ret_inst = Inr (20, t')
      \<and> t_frame t' = default_frame \<and> t_stack t' = [] \<and> t_base t' = 12
      \<and> e_bindings (t_heap t' 9) 3 = Integer_c 42 \<and> e_bindings (t_heap t' 9) 2 = val0
      \<and> e_bindings (t_heap t' 4) 3 = val0
      \<and> t_registers t' = t_registers in_call_named
      \<and> t_environments t' = [4]"
    using r2 f2 k2 b2 g2 e2 unfolding frn
    by (intro exI [of _ t2]) (simp add: safe cf env0_def)
  from A B show ?thesis by blast
qed

text \<open>
  Claim C9. When the interpreter run started by \<^verbatim>\<open>eval\<close> throws, \<^verbatim>\<open>eval\<close> throws the
  same error, and the thread its caller sees has the base pointer and the stack height
  that it had when \<^verbatim>\<open>eval\<close> was entered, whatever the thread looked like at the throw.
\<close>

theorem eval_unwind:
  "eval_entry x done_pc t proto environment = (run, t3) \<Longrightarrow>
   interpret_loop step is_done t3 run = Some (Inl (e, t4)) \<Longrightarrow>
   \<exists>t'. eval x step is_done done_pc t proto environment = Some (Inl (e, t'))
        \<and> t_base t' = t_base t \<and> List.length (t_stack t') = List.length (t_stack t)"
  by (simp add: eval_def Let_def resize_def)

lemma throwing_run:
  "interpret_loop throwing (\<lambda>pc. pc = 0) t 100 = Some (Inl (Error ''no'', push t))"
  by (subst interpret_loop.simps) (simp add: throwing_def)

text \<open>
  The theorem on a handler table that pushes one more frame and throws at the first
  instruction.
\<close>

theorem eval_unwind_witness:
  "\<exists>t'. eval x0 throwing (\<lambda>pc. pc = 0) 0 thread0 6 4 = Some (Inl (Error ''no'', t'))
        \<and> t_base t' = t_base thread0 \<and> List.length (t_stack t') = List.length (t_stack thread0)"
proof -
  obtain run t3 where e: "eval_entry x0 0 thread0 6 4 = (run, t3)"
    by (cases "eval_entry x0 0 thread0 6 4")
  then have "run = 100"
    by (auto simp: eval_entry_def Let_def buildStackFrame_reg_def x0_def)
  then have "interpret_loop throwing (\<lambda>pc. pc = 0) t3 run = Some (Inl (Error ''no'', push t3))"
    by (simp add: throwing_run)
  from eval_unwind [OF e this] show ?thesis .
qed

subsection \<open>The JIT trigger\<close>

text \<open>
  Claim C6 as stated fails at \<^verbatim>\<open>seq\<close>: with a tile width of 128, both operands of
  \<^verbatim>\<open>seq(200, 1)\<close> have length 1, so no operand is a tile long, and yet the trigger hands
  over to the recorder, because it is asked with the requested length 200.
\<close>

theorem seq_trigger_counterexample:
  "seq_op_trace x0 thread0 7 (Integer_c 200) (Integer_c 1) = BeginTracing 7
   \<and> spec_trigger x0 thread0 7 [Integer_c 200, Integer_c 1] = NoTrace"
  by (simp add: seq_op_trace_def trace_tl_def spec_trigger_def isRecordableType_def
        x0_def thread0_def Integer_c_def)

text \<open>
  Claim C6, amended. Built with \<^verbatim>\<open>ENABLE_JIT\<close>, the trigger asked with one operand
  (unary arithmetic; \<^verbatim>\<open>ifelse\<close> and \<^verbatim>\<open>split\<close> pass one of their operands) or with two
  (binary arithmetic) hands over to the recorder exactly when the JIT flag is set, the
  type of every operand passed is Double, Integer or Logical, and some operand passed
  is at least a tile long. The trigger of \<^verbatim>\<open>seq\<close> hands over exactly when the flag is set
  and the requested length (the first element of \<^verbatim>\<open>Len\<close> as an Integer) is at least a
  tile, whatever the types and lengths of the operands. Otherwise, and always when
  built without \<^verbatim>\<open>ENABLE_JIT\<close>, the trigger answers null.
\<close>

theorem jit_trigger:
  "(x_ENABLE_JIT x \<longrightarrow>
      trace1 x t inst av = spec_trigger x t inst [av]
    \<and> trace2 x t inst av bv = spec_trigger x t inst [av, bv]
    \<and> seq_op_trace x t inst Len Step =
        (if t_jitEnabled t \<and> x_AsInteger0 x Len \<ge> x_TRACE_VECTOR_WIDTH x
         then BeginTracing inst else NoTrace))
   \<and> (\<not> x_ENABLE_JIT x \<longrightarrow>
      trace1 x t inst av = NoTrace \<and> trace2 x t inst av bv = NoTrace
    \<and> seq_op_trace x t inst Len Step = NoTrace)"
  by (auto simp: trace1_def trace2_def trace_tl_def seq_op_trace_def spec_trigger_def
        isRecordableType_def Let_def)

text \<open>
  The theorem on a double vector of 128 elements, on that vector and an integer scalar,
  on \<^verbatim>\<open>seq(200, 1)\<close>, and on a build without \<^verbatim>\<open>ENABLE_JIT\<close>.
\<close>

theorem jit_trigger_witness:
  "trace1 x0 thread0 7 (val0\<lparr>v_type := Type_Double, v_length := 128\<rparr>) = BeginTracing 7
   \<and> trace2 x0 thread0 7 (val0\<lparr>v_type := Type_Double, v_length := 128\<rparr>) (Integer_c 1) = BeginTracing 7
   \<and> seq_op_trace x0 thread0 7 (Integer_c 200) (Integer_c 1) = BeginTracing 7
   \<and> trace1 (x0\<lparr>x_ENABLE_JIT := False\<rparr>) thread0 7 (val0\<lparr>v_type := Type_Double, v_length := 128\<rparr>) = NoTrace"
proof -
  let ?v = "val0\<lparr>v_type := Type_Double, v_length := 128\<rparr>"
  have on: "x_ENABLE_JIT x0" by (simp add: x0_def)
  have off: "\<not> x_ENABLE_JIT (x0\<lparr>x_ENABLE_JIT := False\<rparr>)" by simp
  have a: "spec_trigger x0 thread0 7 [?v] = BeginTracing 7"
    by (simp add: spec_trigger_def isRecordableType_def x0_def thread0_def)
  have b: "spec_trigger x0 thread0 7 [?v, Integer_c 1] = BeginTracing 7"
    by (simp add: spec_trigger_def isRecordableType_def x0_def thread0_def Integer_c_def)
  have c: "t_jitEnabled thread0 \<and> x_AsInteger0 x0 (Integer_c 200) \<ge> x_TRACE_VECTOR_WIDTH x0"
    by (simp add: x0_def thread0_def Integer_c_def)
  from jit_trigger [of x0 thread0 7 ?v "Integer_c 1" "Integer_c 200" "Integer_c 1"] on a b c
       jit_trigger [of "x0\<lparr>x_ENABLE_JIT := False\<rparr>" thread0 7 ?v "Integer_c 1" "Integer_c 200" "Integer_c 1"] off
  show ?thesis by simp
qed

section \<open>Properties of the recorder and the scheduler\<close>

subsection \<open>Length specialisation\<close>

text \<open>
  Claim C5, at the length 0, which is below every threshold. \<^verbatim>\<open>SpecializeLength\<close>
  appends one \<^verbatim>\<open>constant\<close> node for the length and answers a shape whose length is that
  constant. Nothing else is recorded: no reenter record is added and none of the
  appended nodes is a guard, so nothing checks at run time that the length is still 0.
\<close>

theorem SpecializeLength_short:
  "SpecializeLength thr j 0 irlength inst =
     (\<lparr>s_length = of_nat (Suc (List.length (jit_trace j))) - 1, s_traceLength = 0\<rparr>,
      j\<lparr>jit_constants := jit_constants j @ [Integer_c 0],
        jit_trace := jit_trace j @
          [\<lparr>ir_op = op_constant, ir_a = of_nat (List.length (jit_constants j)), ir_b = 0,
            ir_c = 0, ir_type = Type_Integer, ir_in = Shape_Empty, ir_out = Shape_Scalar\<rparr>]\<rparr>)
   \<and> jit_reenters (snd (SpecializeLength thr j 0 irlength inst)) = jit_reenters j
   \<and> \<not> list_ex is_guard
         (drop (List.length (jit_trace j)) (jit_trace (snd (SpecializeLength thr j 0 irlength inst))))"
  by (simp add: SpecializeLength_def constant_ir_def makeConstant_def Let_def Integer_c_def is_guard_def)

subsection \<open>Shape merging\<close>




subsection \<open>Fusion groups\<close>

lemma shape_ne_examples:
  "shape_ne Shape_Empty \<lparr>s_length = - 1, s_traceLength = - 1\<rparr>"
  "shape_ne vec200 Shape_Empty" "\<not> shape_ne Shape_Empty Shape_Empty" "\<not> shape_ne vec200 vec200"
  by (simp_all add: shape_ne_def Shape_Empty_def vec200_def)

text \<open>
  Claim C2, on code that scatters into the vector of node 2 and then gathers from it,
  both on the shape of the running group. The scatter opens a group and records its
  base vector 2. The gather is marked fusable: \<^verbatim>\<open>schedule\<close> looks for the third operand
  of the gather (0) among the members, not for its base vector. The pass as the spec
  words it marks the gather as a boundary.
\<close>

theorem schedule_gather_fused:
  "jit_fusable (schedule (jit0\<lparr>jit_code := fusion_code\<rparr>))
     = [False, True, False, False, False, False, True]
   \<and> schedule_spec_loop fusion_code 0 \<lparr>s_length = - 1, s_traceLength = - 1\<rparr> {}
     = [False, True, False, False, False, False, False]"
  by (simp add: schedule_def jit0_def fusion_code_def ir0_def is_boundary_def is_boundary_spec_def
        base_vector_def shape_ne_examples Let_def)

section \<open>Properties of the register allocation\<close>

lemma allocate_examples:
  "allocate (- 1) = (0, - 2)" "allocate (- 2) = (1, - 4)"
  by code_simp+

lemma free_examples:
  "free 0 (- 2) = - 1" "free 0 (- 1) = - 1" "free 1 (- 4) = - 2"
  by code_simp+

lemma fold_insts_run: "register_allocation near fold_insts inputs = Inr fold_result"
  by (simp add: register_allocation_def fold_insts_def fold_result_def numeral_eq_Suc
      alloc_step_def alloc_R_def alloc_A_def alloc_B_def REG_R_def REG_A_def REG_B_def
      write_cell_def read_cell_def reg_index_def near_def allocate_examples free_examples
      is_widening_cast_def Let_def)

lemma storev_insts_run: "register_allocation near storev_insts inputs = Inr storev_result"
  by (simp add: register_allocation_def storev_insts_def fold_insts_def storev_result_def
      numeral_eq_Suc alloc_step_def alloc_R_def alloc_A_def alloc_B_def REG_R_def REG_A_def
      REG_B_def write_cell_def read_cell_def reg_index_def near_def allocate_examples
      free_examples is_widening_cast_def Let_def)

text \<open>
  The instructions of \<open>fold_insts\<close> are as the first pass leaves them, and instruction 1
  is a widening cast.
\<close>

lemma fold_insts_selected:
  "selected fold_insts \<and> is_widening_cast (ti_bc (fold_insts ! 1))"
  by (simp add: selected_def fold_insts_def selected_inst_def is_widening_cast_def
      REG_A_def REG_B_def upt_rec)

text \<open>
  Claim C4, on a trace with a scalar output. The backward pass first gives register 0
  to \<open>!x\<close> (for the integer cast). At the sum, whose result pointer \<^verbatim>\<open>storec\<close> has set
  without clearing \<^verbatim>\<open>REG_R\<close>, it frees the register index computed from that pointer;
  in the layout \<open>near\<close> that index is 0, so register 0 is free again while \<open>!x\<close> holds
  it, and the result of the double cast gets register 0 too. At the double cast the
  operand cell is already set, so the anti-aliasing branch is not reached: the cast
  \<^verbatim>\<open>castl2d\<close> ends with its source and its result both in register 0. With \<^verbatim>\<open>REG_R\<close>
  cleared on the sum, as \<^verbatim>\<open>storev\<close> does, the same trace ends with the source in
  register 0 and the result in register 1.
\<close>

theorem storec_fold_aliases_cast:
  "register_allocation near fold_insts inputs = Inr fold_result
   \<and> ti_bc (insts fold_result ! 1) = bc_castl2d
   \<and> ti_a (insts fold_result ! 1) = Slot 0
   \<and> ti_r (insts fold_result ! 1) = Register 0
   \<and> ti_r (insts fold_result ! 0) = Register 0
   \<and> same_register (insts fold_result) 1
   \<and> register_allocation near storev_insts inputs = Inr storev_result
   \<and> ti_r (insts storev_result ! 1) = Register 1
   \<and> ti_r (insts storev_result ! 0) = Register 0
   \<and> \<not> same_register (insts storev_result) 1"
proof -
  have "same_register (insts fold_result) 1"
    by (simp add: same_register_def fold_result_def)
  moreover have "\<not> same_register (insts storev_result) 1"
    by (simp add: same_register_def storev_result_def)
  ultimately show ?thesis
    using fold_insts_run storev_insts_run by (simp add: fold_result_def storev_result_def)
qed

end
